theory Spec2Isabelle
  imports Complex_Main "HOL-Library.Word"
begin

section \<open>Values, errors and NumPy arrays\<close>

text \<open>
  The two scripts \<^verbatim>\<open>ml_model/train_model.py\<close> and \<^verbatim>\<open>ml_model/convert_to_tflite.py\<close>
  compute on NumPy float arrays. A float is modelled as a \<^typ>\<open>real\<close> (exact arithmetic,
  no rounding); the one place where the source narrows to 32-bit floats is kept visible as
  the library function \<open>np_float32\<close>. A one-dimensional array is a list, a two-dimensional
  one a list of rows.
\<close>

datatype py_error =
    IndexError
  | ValueError
  | KeyError string
  | FileNotFoundError string
  | PermissionError string
  | UnpicklingError string
  | EOFError

type_synonym ndarray = "real list"

text \<open>Array-with-scalar and array-with-array arithmetic, element by element.\<close>

definition mul_s :: "ndarray \<Rightarrow> real \<Rightarrow> ndarray" where
  "mul_s a c = map (\<lambda>x. x * c) a"

definition sub_s :: "ndarray \<Rightarrow> real \<Rightarrow> ndarray" where
  "sub_s a c = map (\<lambda>x. x - c) a"

definition div_s :: "ndarray \<Rightarrow> real \<Rightarrow> ndarray" where
  "div_s a c = map (\<lambda>x. x / c) a"

definition add_a :: "ndarray \<Rightarrow> ndarray \<Rightarrow> ndarray" where
  "add_a a b = map2 (+) a b"

definition sub_a :: "ndarray \<Rightarrow> ndarray \<Rightarrow> ndarray" where
  "sub_a a b = map2 (-) a b"

text \<open>\<^verbatim>\<open>stress_score > threshold\<close>: the boolean mask of an array against a scalar.\<close>

definition greater :: "ndarray \<Rightarrow> real \<Rightarrow> bool list" where
  "greater a t = map (\<lambda>x. x > t) a"

definition astype_int :: "bool list \<Rightarrow> int list" where
  "astype_int m = map (\<lambda>b. if b then 1 else 0) m"

text \<open>A boolean cast to \<^verbatim>\<open>np.float32\<close> is exactly 0.0 or 1.0.\<close>

definition astype_float32_mask :: "bool list \<Rightarrow> ndarray" where
  "astype_float32_mask m = map (\<lambda>b. if b then 1 else 0) m"

text \<open>\<^verbatim>\<open>np.column_stack\<close> of four one-dimensional arrays: row \<open>i\<close> holds the \<open>i\<close>-th entries.\<close>

definition column_stack :: "ndarray \<Rightarrow> ndarray \<Rightarrow> ndarray \<Rightarrow> ndarray \<Rightarrow> real list list" where
  "column_stack a b c d = map (\<lambda>(w, x, y, z). [w, x, y, z]) (zip a (zip b (zip c d)))"

subsection \<open>\<^verbatim>\<open>np.percentile\<close>\<close>

text \<open>
  NumPy's default (linear) method: on the sorted array of length \<open>n\<close> the virtual index is
  \<open>q / 100 * (n - 1)\<close>; the result interpolates between the entries at its floor and at
  the next position. A percentile outside \<open>[0, 100]\<close> is a \<^verbatim>\<open>ValueError\<close>, and an empty
  array has no entry to index (\<^verbatim>\<open>IndexError\<close>).
\<close>

definition lerp :: "real \<Rightarrow> real \<Rightarrow> real \<Rightarrow> real" where
  "lerp a b t = a + (b - a) * t"

definition np_percentile :: "ndarray \<Rightarrow> real \<Rightarrow> py_error + real" where
  "np_percentile a q =
     (if q < 0 \<or> 100 < q then Inl ValueError
      else if a = [] then Inl IndexError
      else
        let arr = sort a;
            n = length arr;
            virtual_index = q / 100 * real (n - 1);
            previous = nat \<lfloor>virtual_index\<rfloor>;
            nxt = min (previous + 1) (n - 1);
            gamma = virtual_index - real previous
        in Inr (lerp (arr ! previous) (arr ! nxt) gamma))"

subsection \<open>The global random generator\<close>

text \<open>
  \<^verbatim>\<open>np.random\<close> is a global generator. Its state has the abstract type \<open>'g\<close>; the library
  is a record of the operations the scripts call. \<open>np_seed\<close> replaces the state whatever
  it was; each distribution draws one sample and advances the state, and an array of
  \<open>size\<close> samples is filled by drawing \<open>size\<close> times in order.
\<close>

record 'g numpy =
  np_seed :: "nat \<Rightarrow> 'g"
  np_normal1 :: "real \<Rightarrow> real \<Rightarrow> 'g \<Rightarrow> real \<times> 'g"
  np_beta1 :: "real \<Rightarrow> real \<Rightarrow> 'g \<Rightarrow> real \<times> 'g"
  np_exponential1 :: "real \<Rightarrow> 'g \<Rightarrow> real \<times> 'g"
  np_float32 :: "real \<Rightarrow> real"

fun draws :: "('g \<Rightarrow> real \<times> 'g) \<Rightarrow> nat \<Rightarrow> 'g \<Rightarrow> ndarray \<times> 'g" where
  "draws f 0 g = ([], g)"
| "draws f (Suc n) g =
     (let (x, g1) = f g; (xs, g2) = draws f n g1 in (x # xs, g2))"

definition np_normal :: "'g numpy \<Rightarrow> real \<Rightarrow> real \<Rightarrow> nat \<Rightarrow> 'g \<Rightarrow> ndarray \<times> 'g" where
  "np_normal N loc scale sz = draws (np_normal1 N loc scale) sz"

definition np_beta :: "'g numpy \<Rightarrow> real \<Rightarrow> real \<Rightarrow> nat \<Rightarrow> 'g \<Rightarrow> ndarray \<times> 'g" where
  "np_beta N a b sz = draws (np_beta1 N a b) sz"

definition np_exponential :: "'g numpy \<Rightarrow> real \<Rightarrow> nat \<Rightarrow> 'g \<Rightarrow> ndarray \<times> 'g" where
  "np_exponential N scale sz = draws (np_exponential1 N scale) sz"

definition astype_float32 :: "'g numpy \<Rightarrow> real list list \<Rightarrow> real list list" where
  "astype_float32 N X = map (map (np_float32 N)) X"

section \<open>train\_model.py: synthetic data for the random forest\<close>

text \<open>A pandas column is a float or an integer series; a DataFrame is its ordered columns.\<close>

datatype series = Float64 "real list" | Int64 "int list"

type_synonym dataframe = "(string \<times> series) list"

text \<open>Lines 33-38 of \<^verbatim>\<open>train_model.py\<close>: the hidden stress score, on the drawn values.\<close>

definition stress_score_rf :: "ndarray \<Rightarrow> ndarray \<Rightarrow> ndarray \<Rightarrow> ndarray \<Rightarrow> ndarray" where
  "stress_score_rf typing_speed backspace_ratio touch_pressure session_length =
     sub_a
       (add_a (add_a (mul_s typing_speed 0.5) (mul_s backspace_ratio 10))
              (mul_s touch_pressure 3))
       (mul_s session_length 0.01)"

definition generate_synthetic_data ::
  "'g numpy \<Rightarrow> nat \<Rightarrow> 'g \<Rightarrow> py_error + (dataframe \<times> 'g)" where
  "generate_synthetic_data N n_samples g =
     (let g0 = np_seed N 42;
          (typing_speed, g1) = np_normal N 5.0 1.5 n_samples g0;
          (backspace_ratio, g2) = np_beta N 2 10 n_samples g1;
          (touch_pressure, g3) = np_normal N 0.6 0.2 n_samples g2;
          (session_length, g4) = np_exponential N 60 n_samples g3;
          stress_score =
            stress_score_rf typing_speed backspace_ratio touch_pressure session_length
      in case np_percentile stress_score 70 of
           Inl e \<Rightarrow> Inl e
         | Inr threshold \<Rightarrow>
             let labels = astype_int (greater stress_score threshold)
             in Inr ([(''typing_speed'', Float64 typing_speed),
                      (''backspace_ratio'', Float64 backspace_ratio),
                      (''touch_pressure'', Float64 touch_pressure),
                      (''session_length'', Float64 session_length),
                      (''is_stressed'', Int64 labels)], g4))"

section \<open>convert\_to\_tflite.py: normalized data for the network\<close>

text \<open>Lines 43-46: the four features are rescaled with fixed constants.\<close>

definition normalize_typing_speed :: "ndarray \<Rightarrow> ndarray" where
  "normalize_typing_speed typing_speed = div_s (sub_s typing_speed 5.0) 1.5"

definition normalize_backspace_ratio :: "ndarray \<Rightarrow> ndarray" where
  "normalize_backspace_ratio backspace_ratio = mul_s backspace_ratio 5"

definition normalize_touch_pressure :: "ndarray \<Rightarrow> ndarray" where
  "normalize_touch_pressure touch_pressure = div_s (sub_s touch_pressure 0.6) 0.2"

definition normalize_session_length :: "ndarray \<Rightarrow> ndarray" where
  "normalize_session_length session_length = div_s (sub_s session_length 60) 60"

text \<open>Lines 51-56: the score of this script, on the rescaled arrays.\<close>

definition stress_score_nn :: "ndarray \<Rightarrow> ndarray \<Rightarrow> ndarray \<Rightarrow> ndarray \<Rightarrow> ndarray" where
  "stress_score_nn typing_speed backspace_ratio touch_pressure session_length =
     sub_a
       (add_a (add_a (mul_s typing_speed 0.5) (mul_s backspace_ratio 0.3))
              (mul_s touch_pressure 0.3))
       (mul_s session_length 0.1)"

definition generate_training_data ::
  "'g numpy \<Rightarrow> nat \<Rightarrow> 'g \<Rightarrow> py_error + ((real list list \<times> ndarray) \<times> 'g)" where
  "generate_training_data N n_samples g =
     (let g0 = np_seed N 42;
          (typing_speed, g1) = np_normal N 5.0 1.5 n_samples g0;
          (backspace_ratio, g2) = np_beta N 2 10 n_samples g1;
          (touch_pressure, g3) = np_normal N 0.6 0.2 n_samples g2;
          (session_length, g4) = np_exponential N 60 n_samples g3;
          typing_speed = normalize_typing_speed typing_speed;
          backspace_ratio = normalize_backspace_ratio backspace_ratio;
          touch_pressure = normalize_touch_pressure touch_pressure;
          session_length = normalize_session_length session_length;
          X = column_stack typing_speed backspace_ratio touch_pressure session_length;
          stress_score =
            stress_score_nn typing_speed backspace_ratio touch_pressure session_length
      in case np_percentile stress_score 70 of
           Inl e \<Rightarrow> Inl e
         | Inr threshold \<Rightarrow>
             let y = astype_float32_mask (greater stress_score threshold)
             in Inr ((astype_float32 N X, y), g4))"

text \<open>Lines 66-69: the split of \<^verbatim>\<open>train_and_convert\<close>, by slicing at \<^verbatim>\<open>int(0.8 * len(X))\<close>.\<close>

definition split_data ::
  "real list list \<Rightarrow> ndarray \<Rightarrow> (real list list \<times> real list list) \<times> (ndarray \<times> ndarray)" where
  "split_data X y =
     (let split = nat \<lfloor>0.8 * real (length X)\<rfloor>
      in ((take split X, drop split X), (take split y, drop split y)))"

section \<open>The world of a run: console, files, generator states\<close>

text \<open>
  A printed line is the list of its pieces, so that an f-string keeps the value it formats:
  \<open>Fmt4 x\<close> is \<^verbatim>\<open>{x:.4f}\<close>, \<open>Fmt2 x\<close> is \<^verbatim>\<open>{x:.2f}\<close>. A file holds bytes. A path that is
  not writable makes a write raise.
\<close>

datatype out = Str string | Fmt4 real | Fmt2 real | Num nat | Shape nat nat

type_synonym line = "out list"

type_synonym bytes = "8 word list"

record 'g world =
  np_state :: 'g
  files :: "string \<rightharpoonup> bytes"
  writable :: "string \<Rightarrow> bool"
  stdout :: "line list"

definition print :: "line \<Rightarrow> ('g, 'z) world_scheme \<Rightarrow> ('g, 'z) world_scheme" where
  "print l w = w\<lparr>stdout := stdout w @ [l]\<rparr>"

definition write_file ::
  "string \<Rightarrow> bytes \<Rightarrow> ('g, 'z) world_scheme \<Rightarrow> py_error + ('g, 'z) world_scheme" where
  "write_file path content w =
     (if writable w path then Inr (w\<lparr>files := (files w)(path \<mapsto> content)\<rparr>)
      else Inl (PermissionError path))"

definition read_file :: "string \<Rightarrow> ('g, 'z) world_scheme \<Rightarrow> py_error + bytes" where
  "read_file path w =
     (case files w path of None \<Rightarrow> Inl (FileNotFoundError path) | Some content \<Rightarrow> Inr content)"

definition newline :: char where
  "newline = CHR 0x0A"

section \<open>train\_model.py: the training pipeline\<close>

subsection \<open>pandas\<close>

definition drop_columns :: "dataframe \<Rightarrow> string list \<Rightarrow> py_error + dataframe" where
  "drop_columns df columns =
     (case filter (\<lambda>c. c \<notin> set (map fst df)) columns of
        [] \<Rightarrow> Inr (filter (\<lambda>(name, col). name \<notin> set columns) df)
      | c # cs \<Rightarrow> Inl (KeyError c))"

definition getitem :: "dataframe \<Rightarrow> string \<Rightarrow> py_error + series" where
  "getitem df name =
     (case map_of df name of None \<Rightarrow> Inl (KeyError name) | Some col \<Rightarrow> Inr col)"

definition series_len :: "series \<Rightarrow> nat" where
  "series_len col = (case col of Float64 xs \<Rightarrow> length xs | Int64 xs \<Rightarrow> length xs)"

definition shape :: "dataframe \<Rightarrow> nat \<times> nat" where
  "shape df = ((case df of [] \<Rightarrow> 0 | (name, col) # rest \<Rightarrow> series_len col), length df)"

definition columns_of :: "dataframe \<Rightarrow> string list" where
  "columns_of df = map fst df"

subsection \<open>scikit-learn and joblib\<close>

text \<open>
  The fitted model has the abstract type \<open>'m\<close>. The library calls of the script are the
  fields of a record, applied to exactly the arguments the script passes;
  \<open>train_test_split X y test_size random_state\<close> returns
  \<^verbatim>\<open>X_train, X_test, y_train, y_test\<close>. Reading a pickle back either gives a model or
  raises the error the library chooses for that content.
\<close>

record rf_params =
  n_estimators :: nat
  random_state :: "nat option"
  max_depth :: "nat option"

record 'm sklearn =
  train_test_split ::
    "dataframe \<Rightarrow> series \<Rightarrow> real \<Rightarrow> nat \<Rightarrow> dataframe \<times> dataframe \<times> series \<times> series"
  rf_fit :: "rf_params \<Rightarrow> dataframe \<Rightarrow> series \<Rightarrow> 'm"
  rf_predict :: "'m \<Rightarrow> dataframe \<Rightarrow> int list"
  feature_importances :: "'m \<Rightarrow> real list"
  accuracy_score :: "series \<Rightarrow> int list \<Rightarrow> real"
  classification_report :: "series \<Rightarrow> int list \<Rightarrow> string"
  pickle :: "'m \<Rightarrow> bytes"
  unpickle :: "bytes \<Rightarrow> py_error + 'm"

definition joblib_dump ::
  "'m sklearn \<Rightarrow> 'm \<Rightarrow> string \<Rightarrow> ('g, 'z) world_scheme \<Rightarrow> py_error + ('g, 'z) world_scheme" where
  "joblib_dump S model filename w = write_file filename (pickle S model) w"

definition joblib_load ::
  "'m sklearn \<Rightarrow> string \<Rightarrow> ('g, 'z) world_scheme \<Rightarrow> py_error + 'm" where
  "joblib_load S filename w =
     (case read_file filename w of
        Inl e \<Rightarrow> Inl e
      | Inr content \<Rightarrow> unpickle S content)"

subsection \<open>\<^verbatim>\<open>train_model\<close>\<close>

definition print_importances ::
  "(string \<times> real) list \<Rightarrow> ('g, 'z) world_scheme \<Rightarrow> ('g, 'z) world_scheme" where
  "print_importances pairs w =
     foldl (\<lambda>w (name, imp). print [Str name, Str '': '', Fmt4 imp] w) w pairs"

definition train_model ::
  "'g numpy \<Rightarrow> 'm sklearn \<Rightarrow> ('g, 'z) world_scheme \<Rightarrow> py_error + ('g, 'z) world_scheme" where
  "train_model N S w0 =
     (let w1 = print [Str ''Generating synthetic data...''] w0
      in (case generate_synthetic_data N 1000 (np_state w1) of
            Inl e \<Rightarrow> Inl e
          | Inr (df, g) \<Rightarrow>
             (let w2 = w1\<lparr>np_state := g\<rparr>
              in (case drop_columns df [''is_stressed''] of
                    Inl e \<Rightarrow> Inl e
                  | Inr X \<Rightarrow>
                     (case getitem df ''is_stressed'' of
                        Inl e \<Rightarrow> Inl e
                      | Inr y \<Rightarrow>
                         (let w3 = print [Str ''Dataset shape: '',
                                          Shape (fst (shape X)) (snd (shape X))] w2;
                              (X_train, X_test, y_train, y_test) =
                                 train_test_split S X y 0.2 42;
                              params = \<lparr>n_estimators = 100, random_state = Some 42,
                                        max_depth = Some 10\<rparr>;
                              w4 = print [Str ''Training model...''] w3;
                              model = rf_fit S params X_train y_train;
                              preds = rf_predict S model X_test;
                              acc = accuracy_score S y_test preds;
                              w5 = print [Str ''Model Accuracy: '', Fmt4 acc] w4;
                              w6 = print [Str (newline # ''Classification Report:'')] w5;
                              w7 = print [Str (classification_report S y_test preds)] w6;
                              model_filename = ''stress_rf_model.pkl''
                          in (case joblib_dump S model model_filename w7 of
                                Inl e \<Rightarrow> Inl e
                              | Inr w8 \<Rightarrow>
                                 (let w9 = print [Str ''Model saved to '',
                                                  Str model_filename] w8;
                                      w10 = print [Str (newline # ''Feature Importances:'')] w9
                                  in Inr (print_importances
                                            (zip (columns_of X) (feature_importances S model))
                                            w10)))))))))"

section \<open>convert\_to\_tflite.py: the network, its training and its conversion\<close>

subsection \<open>Keras models\<close>

datatype activation = Relu | Sigmoid

datatype layer =
    InputLayer nat
  | Dense nat activation
  | BatchNormalization
  | Dropout real

datatype optimizer = Adam real

record compile_args =
  optimizer :: optimizer
  loss :: string
  metrics :: "string list"

text \<open>A model is its layers, its compile arguments and its weights (abstract type \<open>'p\<close>).\<close>

record 'p keras_model =
  layers :: "layer list"
  compiled :: "compile_args option"
  weights :: 'p

record epoch_logs =
  log_loss :: real
  log_accuracy :: real
  log_val_loss :: real
  log_val_accuracy :: real

datatype optimize = OptimizeDefault

text \<open>
  TensorFlow has a generator of its own (weight initialisation, shuffling of the batches),
  with state of the abstract type \<open>'t\<close>; nothing in the script seeds it.
  \<open>tf_train_epoch model x y batch_size\<close> is one pass over the shuffled training batches and
  returns the new weights with the loss and accuracy of the epoch;
  \<open>tf_evaluate model x y\<close> returns loss and accuracy.
\<close>

record ('t, 'p) tensorflow =
  tf_init_weights :: "layer list \<Rightarrow> 't \<Rightarrow> 'p \<times> 't"
  tf_train_epoch ::
    "'p keras_model \<Rightarrow> real list list \<Rightarrow> ndarray \<Rightarrow> nat \<Rightarrow> 't \<Rightarrow> 'p \<times> (real \<times> real) \<times> 't"
  tf_evaluate :: "'p keras_model \<Rightarrow> real list list \<Rightarrow> ndarray \<Rightarrow> real \<times> real"
  tf_serialize :: "'p keras_model \<Rightarrow> bytes"
  tflite_convert :: "'p keras_model \<Rightarrow> optimize list \<Rightarrow> bytes"
  tflite_invoke :: "bytes \<Rightarrow> real list list \<Rightarrow> real list list"

record ('g, 't) tf_world = "'g world" +
  tf_state :: 't

text \<open>Lines 12-31.\<close>

definition stress_layers :: "layer list" where
  "stress_layers =
     [InputLayer 4,
      Dense 32 Relu,
      BatchNormalization,
      Dropout 0.3,
      Dense 16 Relu,
      BatchNormalization,
      Dropout 0.2,
      Dense 8 Relu,
      Dense 1 Sigmoid]"

definition sequential ::
  "('t, 'p) tensorflow \<Rightarrow> layer list \<Rightarrow> ('g, 't, 'z) tf_world_scheme \<Rightarrow>
     'p keras_model \<times> ('g, 't, 'z) tf_world_scheme" where
  "sequential T ls w =
     (let (p, t) = tf_init_weights T ls (tf_state w)
      in (\<lparr>layers = ls, compiled = None, weights = p\<rparr>, w\<lparr>tf_state := t\<rparr>))"

definition compile :: "compile_args \<Rightarrow> 'p keras_model \<Rightarrow> 'p keras_model" where
  "compile args model = model\<lparr>compiled := Some args\<rparr>"

definition create_stress_model ::
  "('t, 'p) tensorflow \<Rightarrow> ('g, 't, 'z) tf_world_scheme \<Rightarrow>
     'p keras_model \<times> ('g, 't, 'z) tf_world_scheme" where
  "create_stress_model T w =
     (let (model, w1) = sequential T stress_layers w;
          model = compile \<lparr>optimizer = Adam 0.001, loss = ''binary_crossentropy'',
                           metrics = [''accuracy'']\<rparr> model
      in (model, w1))"

subsection \<open>\<^verbatim>\<open>Model.fit\<close> and \<^verbatim>\<open>Model.evaluate\<close>\<close>

text \<open>
  Keras runs the epochs \<open>0, \<dots>, epochs - 1\<close> in order. Each epoch trains on the batches,
  evaluates on the validation data, appends its logs to the history and, with
  \<^verbatim>\<open>verbose=1\<close>, prints a header line and a line of logs. After an epoch the loop ends early
  exactly when a callback asks for it: a callback is the test it makes on the logs of the
  epoch. The arguments of the call are kept in a record.
\<close>

type_synonym callback = "epoch_logs \<Rightarrow> bool"

record fit_args =
  fit_x :: "real list list"
  fit_y :: ndarray
  validation_data :: "real list list \<times> ndarray"
  epochs :: nat
  batch_size :: nat
  callbacks :: "callback list"

definition stop_training :: "callback list \<Rightarrow> epoch_logs \<Rightarrow> bool" where
  "stop_training cbs logs = list_ex (\<lambda>cb. cb logs) cbs"

fun fit_loop ::
  "('t, 'p) tensorflow \<Rightarrow> fit_args \<Rightarrow> nat list \<Rightarrow>
     'p keras_model \<times> epoch_logs list \<times> ('g, 't, 'z) tf_world_scheme \<Rightarrow>
     'p keras_model \<times> epoch_logs list \<times> ('g, 't, 'z) tf_world_scheme" where
  "fit_loop T args [] st = st"
| "fit_loop T args (epoch # rest) (model, history, w) =
     (let w1 = print [Str ''Epoch '', Num (epoch + 1), Str ''/'', Num (epochs args)] w;
          (p, (l, a), t) =
             tf_train_epoch T model (fit_x args) (fit_y args) (batch_size args) (tf_state w1);
          model1 = model\<lparr>weights := p\<rparr>;
          (vl, va) =
             tf_evaluate T model1 (fst (validation_data args)) (snd (validation_data args));
          logs = \<lparr>log_loss = l, log_accuracy = a, log_val_loss = vl, log_val_accuracy = va\<rparr>;
          w2 = print [Str ''loss: '', Fmt4 l, Str '' - accuracy: '', Fmt4 a,
                      Str '' - val_loss: '', Fmt4 vl, Str '' - val_accuracy: '', Fmt4 va]
                 (w1\<lparr>tf_state := t\<rparr>);
          st1 = (model1, history @ [logs], w2)
      in if stop_training (callbacks args) logs then st1 else fit_loop T args rest st1)"

definition fit ::
  "('t, 'p) tensorflow \<Rightarrow> fit_args \<Rightarrow> 'p keras_model \<Rightarrow> ('g, 't, 'z) tf_world_scheme \<Rightarrow>
     epoch_logs list \<times> 'p keras_model \<times> ('g, 't, 'z) tf_world_scheme" where
  "fit T args model w =
     (let (model1, history, w1) = fit_loop T args [0..<epochs args] (model, [], w)
      in (history, model1, w1))"

definition evaluate ::
  "('t, 'p) tensorflow \<Rightarrow> 'p keras_model \<Rightarrow> real list list \<Rightarrow> ndarray \<Rightarrow>
     ('g, 't, 'z) tf_world_scheme \<Rightarrow> (real \<times> real) \<times> ('g, 't, 'z) tf_world_scheme" where
  "evaluate T model x y w =
     (let (l, a) = tf_evaluate T model x y
      in ((l, a), print [Str ''loss: '', Fmt4 l, Str '' - accuracy: '', Fmt4 a] w))"

subsection \<open>\<^verbatim>\<open>train_and_convert\<close>\<close>

text \<open>Lines 113-118: the sample run of the converted model.\<close>

definition test_tflite ::
  "'g numpy \<Rightarrow> ('t, 'p) tensorflow \<Rightarrow> string \<Rightarrow> ('g, 't, 'z) tf_world_scheme \<Rightarrow>
     py_error + ('g, 't, 'z) tf_world_scheme" where
  "test_tflite N T tflite_path w =
     (case read_file tflite_path w of
        Inl e \<Rightarrow> Inl e
      | Inr interpreter \<Rightarrow>
         (let test_input = astype_float32 N [[0.5, 0.3, 0.7, - 0.2]];
              output = tflite_invoke T interpreter test_input
          in (case output of
                (v # vs) # rows \<Rightarrow> Inr (print [Str ''Sample prediction: '', Fmt4 v] w)
              | _ \<Rightarrow> Inl IndexError)))"

text \<open>
  \<^verbatim>\<open>train_and_convert\<close> is written in two parts: lines 63-81 (data, split, model, the call of
  \<^verbatim>\<open>fit\<close>) are \<open>train_and_convert_fit\<close>, which hands the test split, the history and the
  trained model to the rest of the function, lines 83-120.
\<close>

definition train_and_convert_fit ::
  "'g numpy \<Rightarrow> ('t, 'p) tensorflow \<Rightarrow> ('g, 't, 'z) tf_world_scheme \<Rightarrow>
     py_error + ((real list list \<times> ndarray) \<times> epoch_logs list \<times> 'p keras_model \<times>
                 ('g, 't, 'z) tf_world_scheme)" where
  "train_and_convert_fit N T w0 =
     (let w1 = print [Str ''Generating training data...''] w0
      in (case generate_training_data N 2000 (np_state w1) of
            Inl e \<Rightarrow> Inl e
          | Inr ((X, y), g) \<Rightarrow>
             (let w2 = w1\<lparr>np_state := g\<rparr>;
                  ((X_train, X_test), (y_train, y_test)) = split_data X y;
                  w3 = print [Str ''Creating TensorFlow model...''] w2;
                  (tf_model, w4) = create_stress_model T w3;
                  w5 = print [Str ''Training model...''] w4;
                  (history, tf_model, w6) =
                     fit T \<lparr>fit_x = X_train, fit_y = y_train,
                            validation_data = (X_test, y_test),
                            epochs = 50, batch_size = 32, callbacks = []\<rparr> tf_model w5
              in Inr ((X_test, y_test), history, tf_model, w6))))"

definition train_and_convert ::
  "'g numpy \<Rightarrow> ('t, 'p) tensorflow \<Rightarrow> ('g, 't, 'z) tf_world_scheme \<Rightarrow>
     py_error + (string \<times> ('g, 't, 'z) tf_world_scheme)" where
  "train_and_convert N T w0 =
     (case train_and_convert_fit N T w0 of
        Inl e \<Rightarrow> Inl e
      | Inr ((X_test, y_test), history, tf_model, w6) \<Rightarrow>
         (let ((loss, accuracy), w7) = evaluate T tf_model X_test y_test w6;
              w8 = print [Str (newline # ''Test Accuracy: ''), Fmt4 accuracy] w7
          in (case write_file ''stress_model.keras'' (tf_serialize T tf_model) w8 of
                Inl e \<Rightarrow> Inl e
              | Inr w9 \<Rightarrow>
                 (let w10 = print [Str ''Saved Keras model to stress_model.keras''] w9;
                      w11 = print [Str (newline # ''Converting to TFLite...'')] w10;
                      tflite_model = tflite_convert T tf_model [OptimizeDefault];
                      tflite_path = ''stress_model.tflite''
                  in (case write_file tflite_path tflite_model w11 of
                        Inl e \<Rightarrow> Inl e
                      | Inr w12 \<Rightarrow>
                         (let w13 = print [Str ''Saved TFLite model to '',
                                           Str tflite_path] w12;
                              w14 = print [Str ''TFLite model size: '',
                                           Fmt2 (real (length tflite_model) / 1024),
                                           Str '' KB''] w13;
                              w15 = print [Str (newline # ''Testing TFLite model...'')] w14
                          in (case test_tflite N T tflite_path w15 of
                                Inl e \<Rightarrow> Inl e
                              | Inr w16 \<Rightarrow> Inr (tflite_path, w16))))))))"

subsection \<open>The script as it is run\<close>

text \<open>
  Running \<^verbatim>\<open>convert_to_tflite.py\<close> executes the module body first: line 7 loads
  \<^verbatim>\<open>stress_rf_model.pkl\<close> into the module-level name \<^verbatim>\<open>model\<close>, and only then the
  \<^verbatim>\<open>__main__\<close> guard calls \<^verbatim>\<open>train_and_convert()\<close>, whose result the guard drops.
\<close>

definition convert_to_tflite_main ::
  "'g numpy \<Rightarrow> 'm sklearn \<Rightarrow> ('t, 'p) tensorflow \<Rightarrow> ('g, 't, 'z) tf_world_scheme \<Rightarrow>
     py_error + ('g, 't, 'z) tf_world_scheme" where
  "convert_to_tflite_main N S T w =
     (case joblib_load S ''stress_rf_model.pkl'' w of
        Inl e \<Rightarrow> Inl e
      | Inr model \<Rightarrow>
         (case train_and_convert N T w of
            Inl e \<Rightarrow> Inl e
          | Inr (tflite_path, w1) \<Rightarrow> Inr w1))"

definition train_model_main ::
  "'g numpy \<Rightarrow> 'm sklearn \<Rightarrow> ('g, 'z) world_scheme \<Rightarrow> py_error + ('g, 'z) world_scheme" where
  "train_model_main N S w = train_model N S w"

section \<open>What the specification says, and small concrete libraries\<close>

text \<open>
  The definitions of this section are not code of the scripts. The first group writes
  down notions of the specification, to compare the code with; the second gives small
  concrete libraries and worlds on which the definitions above can be evaluated.
\<close>

text \<open>Specification 4.2: the score of one sample, with the weights \<open>w_b\<close> and \<open>w_p\<close>.\<close>

definition spec_stress_score :: "real \<Rightarrow> real \<Rightarrow> real \<Rightarrow> real \<Rightarrow> real \<Rightarrow> real \<Rightarrow> real" where
  "spec_stress_score w_b w_p typing_speed backspace_ratio touch_pressure session_length =
     0.5 * typing_speed + w_b * backspace_ratio + w_p * touch_pressure
       - 0.1 * session_length"

text \<open>Specification 8: the inverse affine maps of the Normalizer.\<close>

definition denormalize_typing_speed :: "ndarray \<Rightarrow> ndarray" where
  "denormalize_typing_speed a = map (\<lambda>x. x * 1.5 + 5.0) a"

definition denormalize_backspace_ratio :: "ndarray \<Rightarrow> ndarray" where
  "denormalize_backspace_ratio a = map (\<lambda>x. x / 5) a"

definition denormalize_touch_pressure :: "ndarray \<Rightarrow> ndarray" where
  "denormalize_touch_pressure a = map (\<lambda>x. x * 0.2 + 0.6) a"

definition denormalize_session_length :: "ndarray \<Rightarrow> ndarray" where
  "denormalize_session_length a = map (\<lambda>x. x * 60 + 60) a"




text \<open>Specification 4.5: the topology as a sequence of layer kinds.\<close>

datatype layer_kind = KInput | KDense | KNormalize | KDropout

fun kind_of :: "layer \<Rightarrow> layer_kind" where
  "kind_of (InputLayer n) = KInput"
| "kind_of (Dense n a) = KDense"
| "kind_of BatchNormalization = KNormalize"
| "kind_of (Dropout r) = KDropout"

definition spec_topology :: "layer_kind list" where
  "spec_topology = [KDense, KNormalize, KDropout, KDense, KNormalize, KDropout, KDense]"

definition dense_layers :: "layer list \<Rightarrow> layer list" where
  "dense_layers ls = filter (\<lambda>l. kind_of l = KDense) ls"

text \<open>
  Specification 4.5, the training loop: \<open>k\<close> passes over the training data, one after the
  other, with nothing that could end them early.
\<close>

fun run_epochs ::
  "('t, 'p) tensorflow \<Rightarrow> real list list \<Rightarrow> ndarray \<Rightarrow> nat \<Rightarrow> nat \<Rightarrow>
     'p keras_model \<times> 't \<Rightarrow> 'p keras_model \<times> 't" where
  "run_epochs T x y bs 0 st = st"
| "run_epochs T x y bs (Suc k) (model, t) =
     (let (p, la, t1) = tf_train_epoch T model x y bs t
      in run_epochs T x y bs k (model\<lparr>weights := p\<rparr>, t1))"

text \<open>Specification 6: a world that differs from another one in the content of one file.\<close>

definition put_file ::
  "string \<Rightarrow> bytes option \<Rightarrow> ('g, 'z) world_scheme \<Rightarrow> ('g, 'z) world_scheme" where
  "put_file path c w = w\<lparr>files := (files w)(path := c)\<rparr>"

text \<open>
  A generator whose state counts the draws, and libraries with fixed answers: enough to
  run the scripts on a concrete input.
\<close>

definition demo_numpy :: "nat numpy" where
  "demo_numpy =
     \<lparr>np_seed = (\<lambda>s. 0),
      np_normal1 = (\<lambda>loc scale g. (loc + scale * real g, g + 1)),
      np_beta1 = (\<lambda>a b g. (a / (a + b), g + 1)),
      np_exponential1 = (\<lambda>scale g. (scale, g + 1)),
      np_float32 = (\<lambda>x. x)\<rparr>"

definition demo_sklearn :: "nat sklearn" where
  "demo_sklearn =
     \<lparr>train_test_split = (\<lambda>X y test_size seed. (X, X, y, y)),
      rf_fit = (\<lambda>params X y. n_estimators params),
      rf_predict = (\<lambda>model X. []),
      feature_importances = (\<lambda>model. [1 / 4, 1 / 4, 1 / 4, 1 / 4]),
      accuracy_score = (\<lambda>y preds. 1),
      classification_report = (\<lambda>y preds. ''report''),
      pickle = (\<lambda>model. [of_nat model]),
      unpickle = (\<lambda>content. if content = [] then Inl EOFError else Inr (length content))\<rparr>"

definition demo_tensorflow :: "real \<Rightarrow> (nat, nat) tensorflow" where
  "demo_tensorflow prediction =
     \<lparr>tf_init_weights = (\<lambda>ls t. (0, t + 1)),
      tf_train_epoch = (\<lambda>model x y bs t. (weights model + 1, (1 / 2, 1 / 2), t + 1)),
      tf_evaluate = (\<lambda>model x y. (1 / 2, 1 / 2)),
      tf_serialize = (\<lambda>model. [of_nat (weights model)]),
      tflite_convert = (\<lambda>model opts. [of_nat (weights model), 0]),
      tflite_invoke = (\<lambda>content input. [[prediction]])\<rparr>"

definition demo_world :: "(string \<rightharpoonup> bytes) \<Rightarrow> nat world" where
  "demo_world fs = \<lparr>np_state = 7, files = fs, writable = (\<lambda>path. True), stdout = []\<rparr>"

definition demo_tf_world :: "(string \<rightharpoonup> bytes) \<Rightarrow> (nat, nat) tf_world" where
  "demo_tf_world fs =
     \<lparr>np_state = 7, files = fs, writable = (\<lambda>path. True), stdout = [], tf_state = 3\<rparr>"

section \<open>Helper facts\<close>

lemma length_draws: "length (fst (draws f n g)) = n"
  by (induction n arbitrary: g) (simp_all add: split_def Let_def)

lemma nth_stress_score_rf:
  assumes "length br = length ts" "length tp = length ts" "length sl = length ts"
    and "i < length ts"
  shows "stress_score_rf ts br tp sl ! i
           = 0.5 * ts ! i + 10 * br ! i + 3 * tp ! i - 0.01 * sl ! i"
  using assms by (simp add: stress_score_rf_def sub_a_def add_a_def mul_s_def)

lemma nth_stress_score_nn:
  assumes "length br = length ts" "length tp = length ts" "length sl = length ts"
    and "i < length ts"
  shows "stress_score_nn ts br tp sl ! i
           = 0.5 * ts ! i + 0.3 * br ! i + 0.3 * tp ! i - 0.1 * sl ! i"
  using assms by (simp add: stress_score_nn_def sub_a_def add_a_def mul_s_def)

lemma floor_08: "nat \<lfloor>0.8 * real n\<rfloor> = 4 * n div 5"
proof -
  have "0.8 * real n = real (4 * n) / real 5" by simp
  then have "\<lfloor>0.8 * real n\<rfloor> = int (4 * n div 5)"
    by (simp only: floor_divide_of_nat_eq)
  then show ?thesis by simp
qed














section \<open>Claims\<close>

text \<open>
  C1 (as amended). The random-forest script scores the raw values with
  \<open>0.5, 10, 3\<close> and \<open>- 0.01\<close> on the session length; the network script scores the
  normalized values with \<open>0.5, 0.3, 0.3\<close> and \<open>- 0.1\<close>.
\<close>

theorem stress_score_of_each_variant:
  assumes "length br = length ts" "length tp = length ts" "length sl = length ts"
    and "i < length ts"
  shows "stress_score_rf ts br tp sl ! i
           = 0.5 * ts ! i + 10 * br ! i + 3 * tp ! i - 0.01 * sl ! i
       \<and> stress_score_nn (normalize_typing_speed ts) (normalize_backspace_ratio br)
            (normalize_touch_pressure tp) (normalize_session_length sl) ! i
           = 0.5 * ((ts ! i - 5.0) / 1.5) + 0.3 * (br ! i * 5)
             + 0.3 * ((tp ! i - 0.6) / 0.2) - 0.1 * ((sl ! i - 60) / 60)"
proof
  show "stress_score_rf ts br tp sl ! i
           = 0.5 * ts ! i + 10 * br ! i + 3 * tp ! i - 0.01 * sl ! i"
    using assms by (rule nth_stress_score_rf)
  have "stress_score_nn (normalize_typing_speed ts) (normalize_backspace_ratio br)
            (normalize_touch_pressure tp) (normalize_session_length sl) ! i
        = 0.5 * normalize_typing_speed ts ! i + 0.3 * normalize_backspace_ratio br ! i
          + 0.3 * normalize_touch_pressure tp ! i - 0.1 * normalize_session_length sl ! i"
    using assms
    by (intro nth_stress_score_nn)
       (simp_all add: normalize_typing_speed_def normalize_backspace_ratio_def
          normalize_touch_pressure_def normalize_session_length_def
          div_s_def sub_s_def mul_s_def)
  also have "\<dots> = 0.5 * ((ts ! i - 5.0) / 1.5) + 0.3 * (br ! i * 5)
             + 0.3 * ((tp ! i - 0.6) / 0.2) - 0.1 * ((sl ! i - 60) / 60)"
    using assms
    by (simp add: normalize_typing_speed_def normalize_backspace_ratio_def
          normalize_touch_pressure_def normalize_session_length_def
          div_s_def sub_s_def mul_s_def)
  finally show "stress_score_nn (normalize_typing_speed ts) (normalize_backspace_ratio br)
            (normalize_touch_pressure tp) (normalize_session_length sl) ! i
           = 0.5 * ((ts ! i - 5.0) / 1.5) + 0.3 * (br ! i * 5)
             + 0.3 * ((tp ! i - 0.6) / 0.2) - 0.1 * ((sl ! i - 60) / 60)" .
qed

theorem stress_score_of_each_variant_witness:
  "stress_score_rf [5] [0] [0] [100] ! 0 = 3 / 2
   \<and> stress_score_nn (normalize_typing_speed [5]) (normalize_backspace_ratio [0])
        (normalize_touch_pressure [0]) (normalize_session_length [100]) ! 0 = - 29 / 30"
  using stress_score_of_each_variant [of "[0]" "[5]" "[0]" "[100]" 0] by simp

theorem stress_score_counterexample:
  "stress_score_rf [0] [0] [0] [100] = [- 1]
   \<and> [spec_stress_score 10 3 0 0 0 100] = [- 10]
   \<and> stress_score_nn (normalize_typing_speed [5]) (normalize_backspace_ratio [0])
        (normalize_touch_pressure [0]) (normalize_session_length [60]) = [- 9 / 10]
   \<and> [spec_stress_score 0.3 0.3 5 0 0 60] = [- 7 / 2]"
  by (simp add: stress_score_rf_def stress_score_nn_def spec_stress_score_def
        normalize_typing_speed_def normalize_backspace_ratio_def
        normalize_touch_pressure_def normalize_session_length_def
        sub_a_def add_a_def mul_s_def div_s_def sub_s_def)

text \<open>
  C3. Over exact arithmetic each of the four rescalings is undone by its inverse affine
  map, for every array of raw values.
\<close>

theorem normalization_round_trip:
  "denormalize_typing_speed (normalize_typing_speed ts) = ts
   \<and> denormalize_backspace_ratio (normalize_backspace_ratio br) = br
   \<and> denormalize_touch_pressure (normalize_touch_pressure tp) = tp
   \<and> denormalize_session_length (normalize_session_length sl) = sl"
proof (intro conjI)
  show "denormalize_typing_speed (normalize_typing_speed ts) = ts"
    by (induction ts)
       (simp_all add: denormalize_typing_speed_def normalize_typing_speed_def
          div_s_def sub_s_def diff_divide_distrib)
  show "denormalize_backspace_ratio (normalize_backspace_ratio br) = br"
    by (induction br)
       (simp_all add: denormalize_backspace_ratio_def normalize_backspace_ratio_def mul_s_def)
  show "denormalize_touch_pressure (normalize_touch_pressure tp) = tp"
    by (induction tp)
       (simp_all add: denormalize_touch_pressure_def normalize_touch_pressure_def
          div_s_def sub_s_def diff_divide_distrib)
  show "denormalize_session_length (normalize_session_length sl) = sl"
    by (induction sl)
       (simp_all add: denormalize_session_length_def normalize_session_length_def
          div_s_def sub_s_def diff_divide_distrib)
qed

text \<open>
  C8. Both generators seed the global generator themselves, so their result does not
  depend on the state in which they are called: two invocations with the same sample
  count return the same features, the same labels and the same final state.
\<close>

theorem generators_are_deterministic:
  "generate_synthetic_data N n g = generate_synthetic_data N n g'
   \<and> generate_training_data N n g = generate_training_data N n g'"
  by (simp add: generate_synthetic_data_def generate_training_data_def)

text \<open>
  C10. The split of the network script takes the first \<open>\<lfloor>0.8 N\<rfloor>\<close> rows, in their order,
  for training and the remaining rows for testing; nothing is shuffled.
\<close>

theorem split_is_a_prefix:
  "split_data X y =
     ((take (4 * length X div 5) X, drop (4 * length X div 5) X),
      (take (4 * length X div 5) y, drop (4 * length X div 5) y))
   \<and> fst (fst (split_data X y)) @ snd (fst (split_data X y)) = X
   \<and> fst (snd (split_data X y)) @ snd (snd (split_data X y)) = y
   \<and> length (fst (fst (split_data X y))) = nat \<lfloor>0.8 * real (length X)\<rfloor>"
  by (simp only: split_data_def Let_def floor_08) simp


lemma np_percentile_total: "a \<noteq> [] \<Longrightarrow> \<exists>t. np_percentile a 70 = Inr t"
  by (simp add: np_percentile_def Let_def)

lemma length_np_draws [simp]:
  "length (fst (np_normal N loc scale n g)) = n"
  "length (fst (np_beta N a b n g)) = n"
  "length (fst (np_exponential N scale n g)) = n"
  by (simp_all add: np_normal_def np_beta_def np_exponential_def length_draws)

lemma length_stress_score_rf:
  "length br = length ts \<Longrightarrow> length tp = length ts \<Longrightarrow> length sl = length ts
     \<Longrightarrow> length (stress_score_rf ts br tp sl) = length ts"
  by (simp add: stress_score_rf_def sub_a_def add_a_def mul_s_def)

lemma length_stress_score_nn:
  "length br = length ts \<Longrightarrow> length tp = length ts \<Longrightarrow> length sl = length ts
     \<Longrightarrow> length (stress_score_nn ts br tp sl) = length ts"
  by (simp add: stress_score_nn_def sub_a_def add_a_def mul_s_def)

lemma length_normalize [simp]:
  "length (normalize_typing_speed a) = length a"
  "length (normalize_backspace_ratio a) = length a"
  "length (normalize_touch_pressure a) = length a"
  "length (normalize_session_length a) = length a"
  by (simp_all add: normalize_typing_speed_def normalize_backspace_ratio_def
        normalize_touch_pressure_def normalize_session_length_def div_s_def sub_s_def mul_s_def)












text \<open>
  C5 (as amended). The network that \<^verbatim>\<open>create_stress_model\<close> builds takes four features
  and is, in this order: dense (32 units, relu), normalize, dropout 0.3, dense (16, relu),
  normalize, dropout 0.2, dense (8, relu), dense (1, sigmoid). It has four dense layers,
  the last being the sigmoid output.
\<close>

theorem stress_model_topology:
  "layers (fst (create_stress_model T w)) =
     [InputLayer 4, Dense 32 Relu, BatchNormalization, Dropout 0.3,
      Dense 16 Relu, BatchNormalization, Dropout 0.2, Dense 8 Relu, Dense 1 Sigmoid]
   \<and> map kind_of stress_layers =
     [KInput, KDense, KNormalize, KDropout, KDense, KNormalize, KDropout, KDense, KDense]
   \<and> dense_layers stress_layers = [Dense 32 Relu, Dense 16 Relu, Dense 8 Relu, Dense 1 Sigmoid]
   \<and> filter (\<lambda>l. kind_of l = KDropout) stress_layers = [Dropout 0.3, Dropout 0.2]
   \<and> hd stress_layers = InputLayer 4
   \<and> last stress_layers = Dense 1 Sigmoid
   \<and> layers (fst (create_stress_model T w)) = stress_layers"
  by (simp add: stress_layers_def dense_layers_def create_stress_model_def sequential_def
        compile_def split_def Let_def)

theorem stress_model_topology_counterexample:
  "map kind_of (tl stress_layers) \<noteq> spec_topology
   \<and> length (dense_layers stress_layers) \<noteq> 3"
  by (simp add: stress_layers_def dense_layers_def spec_topology_def)

subsection \<open>Printing and the other fields of the world\<close>

lemma print_fields [simp]:
  "files (print l w) = files w"
  "writable (print l w) = writable w"
  "np_state (print l w) = np_state w"
  "stdout (print l w) = stdout w @ [l]"
  by (simp_all add: print_def)

lemma print_tf_state [simp]: "tf_state (print l w) = tf_state w"
  by (simp add: print_def)

subsection \<open>The generators return data for a positive sample count\<close>

lemma length_column_stack:
  "length b = length a \<Longrightarrow> length c = length a \<Longrightarrow> length d = length a
     \<Longrightarrow> length (column_stack a b c d) = length a"
  by (simp add: column_stack_def)

lemma generate_training_data_total:
  assumes "0 < n"
  shows "\<exists>X y g'. generate_training_data N n g = Inr ((X, y), g')
           \<and> length X = n \<and> length y = n"
proof -
  obtain ts g1 where ts: "np_normal N 5.0 1.5 n (np_seed N 42) = (ts, g1)"
    by (cases "np_normal N 5.0 1.5 n (np_seed N 42)")
  obtain br g2 where br: "np_beta N 2 10 n g1 = (br, g2)"
    by (cases "np_beta N 2 10 n g1")
  obtain tp g3 where tp: "np_normal N 0.6 0.2 n g2 = (tp, g3)"
    by (cases "np_normal N 0.6 0.2 n g2")
  obtain sl g4 where sl: "np_exponential N 60 n g3 = (sl, g4)"
    by (cases "np_exponential N 60 n g3")
  have len: "length ts = n" "length br = n" "length tp = n" "length sl = n"
    using length_np_draws(1) [of N "5.0" "1.5" n "np_seed N 42"]
      length_np_draws(2) [of N 2 10 n g1] length_np_draws(1) [of N "0.6" "0.2" n g2]
      length_np_draws(3) [of N 60 n g3]
    by (simp_all only: ts br tp sl fst_conv)
  define sc where "sc = stress_score_nn (normalize_typing_speed ts)
      (normalize_backspace_ratio br) (normalize_touch_pressure tp)
      (normalize_session_length sl)"
  have lsc: "length sc = n"
    unfolding sc_def using len by (simp add: length_stress_score_nn)
  then have "sc \<noteq> []" using assms by auto
  then obtain t where t: "np_percentile sc 70 = Inr t"
    using np_percentile_total by blast
  have "generate_training_data N n g =
      Inr ((astype_float32 N (column_stack (normalize_typing_speed ts)
              (normalize_backspace_ratio br) (normalize_touch_pressure tp)
              (normalize_session_length sl)),
            astype_float32_mask (greater sc t)), g4)"
    unfolding generate_training_data_def Let_def ts br tp sl prod.case
      sc_def [symmetric] t sum.case ..
  moreover have "length (astype_float32 N (column_stack (normalize_typing_speed ts)
              (normalize_backspace_ratio br) (normalize_touch_pressure tp)
              (normalize_session_length sl))) = n"
    using len by (simp add: astype_float32_def length_column_stack)
  moreover have "length (astype_float32_mask (greater sc t)) = n"
    using lsc by (simp add: astype_float32_mask_def greater_def)
  ultimately show ?thesis by blast
qed

subsection \<open>The training loop without callbacks\<close>

lemma stop_training_Nil [simp]: "stop_training [] logs = False"
  by (simp add: stop_training_def)

lemma fit_loop_no_callbacks:
  assumes "callbacks args = []"
    and "fit_loop T args es (model, history, w) = (model1, history1, w1)"
  shows "length history1 = length history + length es
       \<and> (model1, tf_state w1)
           = run_epochs T (fit_x args) (fit_y args) (batch_size args) (length es)
               (model, tf_state w)
       \<and> files w1 = files w \<and> writable w1 = writable w \<and> np_state w1 = np_state w
       \<and> layers model1 = layers model"
  using assms(2)
proof (induction es arbitrary: model history w)
  case Nil
  then show ?case by simp
next
  case (Cons epoch rest)
  obtain p la t where tr0: "tf_train_epoch T model (fit_x args) (fit_y args)
      (batch_size args) (tf_state w) = (p, la, t)"
    by (rule prod_cases3)
  obtain l a where la: "la = (l, a)" by (cases la)
  note tr = tr0 [unfolded la]
  obtain vl va where ev: "tf_evaluate T (model\<lparr>weights := p\<rparr>)
      (fst (validation_data args)) (snd (validation_data args)) = (vl, va)"
    by (cases "tf_evaluate T (model\<lparr>weights := p\<rparr>)
      (fst (validation_data args)) (snd (validation_data args))")
  from Cons.prems obtain h2 w2 where
    rec: "fit_loop T args rest (model\<lparr>weights := p\<rparr>, h2, w2) = (model1, history1, w1)"
    and h2: "length h2 = length history + 1"
    and w2: "tf_state w2 = t" "files w2 = files w" "writable w2 = writable w"
      "np_state w2 = np_state w"
    by (simp add: tr ev assms(1) Let_def)
  from Cons.IH [OF rec] h2 w2 show ?case
    by (simp add: tr)
qed

lemma create_stress_model_eq:
  "create_stress_model T w =
     (\<lparr>layers = stress_layers,
       compiled = Some \<lparr>optimizer = Adam 0.001, loss = ''binary_crossentropy'',
                        metrics = [''accuracy'']\<rparr>,
       weights = fst (tf_init_weights T stress_layers (tf_state w))\<rparr>,
      w\<lparr>tf_state := snd (tf_init_weights T stress_layers (tf_state w))\<rparr>)"
  by (simp add: create_stress_model_def sequential_def compile_def split_def Let_def)

lemma create_stress_model_frame [simp]:
  "files (snd (create_stress_model T w)) = files w"
  "writable (snd (create_stress_model T w)) = writable w"
  "np_state (snd (create_stress_model T w)) = np_state w"
  "stdout (snd (create_stress_model T w)) = stdout w"
  by (simp_all add: create_stress_model_eq)

lemma create_stress_model_tf_state:
  "tf_state w' = tf_state w \<Longrightarrow>
     fst (create_stress_model T w') = fst (create_stress_model T w)
   \<and> tf_state (snd (create_stress_model T w')) = tf_state (snd (create_stress_model T w))"
  by (simp add: create_stress_model_eq)

lemma train_and_convert_fit_eq:
  assumes gen: "generate_training_data N 2000 (np_state w0) = Inr ((X, y), g)"
  shows "\<exists>history tf_model w6.
      train_and_convert_fit N T w0
        = Inr ((snd (fst (split_data X y)), snd (snd (split_data X y))), history, tf_model, w6)
    \<and> length history = 50
    \<and> (tf_model, tf_state w6)
        = run_epochs T (fst (fst (split_data X y))) (fst (snd (split_data X y))) 32 50
            (fst (create_stress_model T w0), tf_state (snd (create_stress_model T w0)))
    \<and> files w6 = files w0 \<and> writable w6 = writable w0"
proof -
  obtain X_train X_test y_train y_test where
    sp: "split_data X y = ((X_train, X_test), (y_train, y_test))"
    by (metis surj_pair)
  define w3 where "w3 = print [Str ''Creating TensorFlow model...'']
      ((print [Str ''Generating training data...''] w0)\<lparr>np_state := g\<rparr>)"
  define args where "args = \<lparr>fit_x = X_train, fit_y = y_train,
      validation_data = (X_test, y_test), epochs = 50, batch_size = 32,
      callbacks = ([] :: callback list)\<rparr>"
  define m0 where "m0 = fst (create_stress_model T w3)"
  define w5 where "w5 = print [Str ''Training model...''] (snd (create_stress_model T w3))"
  obtain m1 h w6 where lp: "fit_loop T args [0..<50] (m0, [], w5) = (m1, h, w6)"
    by (rule prod_cases3)
  have tfs: "tf_state w3 = tf_state w0" by (simp add: w3_def)
  have cb: "callbacks args = []" by (simp add: args_def)
  from fit_loop_no_callbacks [OF cb lp]
  have h: "length h = 50"
    and run: "(m1, tf_state w6) = run_epochs T X_train y_train 32 50 (m0, tf_state w5)"
    and fr: "files w6 = files w5" "writable w6 = writable w5"
    by (simp_all add: args_def)
  have m0: "m0 = fst (create_stress_model T w0)"
    and t5: "tf_state w5 = tf_state (snd (create_stress_model T w0))"
    using create_stress_model_tf_state [OF tfs, of T] by (simp_all add: m0_def w5_def)
  have f5: "files w5 = files w0" "writable w5 = writable w0"
    by (simp_all add: w5_def w3_def)
  have "train_and_convert_fit N T w0 = Inr ((X_test, y_test), h, m1, w6)"
    using lp
    by (simp add: train_and_convert_fit_def gen sp fit_def Let_def split_def
          w3_def [symmetric] args_def [symmetric] m0_def [symmetric] w5_def [symmetric])
  with h run fr m0 t5 f5 sp show ?thesis by simp
qed

lemma evaluate_frame [simp]:
  "files (snd (evaluate T model x y w)) = files w"
  "writable (snd (evaluate T model x y w)) = writable w"
  by (simp_all add: evaluate_def split_def Let_def)

lemma write_file_Inr:
  "write_file path content w = Inr w' \<longleftrightarrow>
     writable w path \<and> w' = w\<lparr>files := (files w)(path \<mapsto> content)\<rparr>"
  by (auto simp: write_file_def)

lemma write_file_Inl:
  "write_file path content w = Inl e \<longleftrightarrow> \<not> writable w path \<and> e = PermissionError path"
  by (auto simp: write_file_def)

lemma test_tflite_Inr:
  "test_tflite N T path w = Inr w' \<longleftrightarrow>
     (\<exists>content v vs rows. files w path = Some content
        \<and> tflite_invoke T content (astype_float32 N [[0.5, 0.3, 0.7, - 0.2]]) = (v # vs) # rows
        \<and> w' = print [Str ''Sample prediction: '', Fmt4 v] w)"
  by (auto simp: test_tflite_def read_file_def Let_def split: option.splits list.splits)

lemma train_and_convert_Inr:
  assumes fit: "train_and_convert_fit N T w0 = Inr ((X_test, y_test), history, tf_model, w6)"
    and run: "train_and_convert N T w0 = Inr (p, w')"
  shows "p = ''stress_model.tflite''
    \<and> writable w6 ''stress_model.keras'' \<and> writable w6 ''stress_model.tflite''
    \<and> files w' = (files w6)(''stress_model.keras'' \<mapsto> tf_serialize T tf_model,
                             ''stress_model.tflite'' \<mapsto> tflite_convert T tf_model [OptimizeDefault])
    \<and> (\<exists>v vs rows.
          tflite_invoke T (tflite_convert T tf_model [OptimizeDefault])
            (astype_float32 N [[0.5, 0.3, 0.7, - 0.2]]) = (v # vs) # rows
        \<and> last (stdout w') = [Str ''Sample prediction: '', Fmt4 v])"
  using run
  by (auto simp: train_and_convert_def fit Let_def split_def write_file_Inr test_tflite_Inr
        split: sum.splits)

lemma train_and_convert_total:
  assumes fit: "train_and_convert_fit N T w0 = Inr ((X_test, y_test), history, tf_model, w6)"
    and wr: "writable w6 ''stress_model.keras''" "writable w6 ''stress_model.tflite''"
    and out: "tflite_invoke T (tflite_convert T tf_model [OptimizeDefault])
            (astype_float32 N [[0.5, 0.3, 0.7, - 0.2]]) = (v # vs) # rows"
  shows "\<exists>w'. train_and_convert N T w0 = Inr (''stress_model.tflite'', w')"
  using wr out
  by (simp add: train_and_convert_def fit Let_def split_def write_file_def test_tflite_def
        read_file_def)


text \<open>
  C6. The call of \<^verbatim>\<open>fit\<close> in \<^verbatim>\<open>train_and_convert\<close> passes 50 epochs, batch size 32 and no
  callback. Whatever the library's losses are, the history has 50 entries, the trained
  model is the result of 50 passes with batch size 32 over the training split, no file
  is written while training, and the file \<^verbatim>\<open>stress_model.keras\<close> of a completed run
  holds that model.
\<close>

theorem training_runs_all_fifty_epochs:
  "\<exists>X y g history tf_model w6.
      generate_training_data N 2000 (np_state w0) = Inr ((X, y), g)
    \<and> train_and_convert_fit N T w0
        = Inr ((snd (fst (split_data X y)), snd (snd (split_data X y))), history, tf_model, w6)
    \<and> length history = 50
    \<and> (tf_model, tf_state w6)
        = run_epochs T (fst (fst (split_data X y))) (fst (snd (split_data X y))) 32 50
            (fst (create_stress_model T w0), tf_state (snd (create_stress_model T w0)))
    \<and> files w6 = files w0 \<and> writable w6 = writable w0
    \<and> (\<forall>p w'. train_and_convert N T w0 = Inr (p, w') \<longrightarrow>
          files w' ''stress_model.keras'' = Some (tf_serialize T tf_model))"
proof -
  obtain X y g where gen: "generate_training_data N 2000 (np_state w0) = Inr ((X, y), g)"
    using generate_training_data_total [of 2000 N "np_state w0"] by auto
  from train_and_convert_fit_eq [OF gen, of T] obtain history tf_model w6 where
    fit: "train_and_convert_fit N T w0
        = Inr ((snd (fst (split_data X y)), snd (snd (split_data X y))), history, tf_model, w6)"
    and rest: "length history = 50"
      "(tf_model, tf_state w6)
        = run_epochs T (fst (fst (split_data X y))) (fst (snd (split_data X y))) 32 50
            (fst (create_stress_model T w0), tf_state (snd (create_stress_model T w0)))"
      "files w6 = files w0" "writable w6 = writable w0"
    by blast
  have "\<forall>p w'. train_and_convert N T w0 = Inr (p, w') \<longrightarrow>
          files w' ''stress_model.keras'' = Some (tf_serialize T tf_model)"
  proof (intro allI impI)
    fix p w' assume run: "train_and_convert N T w0 = Inr (p, w')"
    from train_and_convert_Inr [OF fit run]
    have "files w' = (files w6)(''stress_model.keras'' \<mapsto> tf_serialize T tf_model,
            ''stress_model.tflite'' \<mapsto> tflite_convert T tf_model [OptimizeDefault])"
      by blast
    then show "files w' ''stress_model.keras'' = Some (tf_serialize T tf_model)"
      by simp
  qed
  with gen fit rest show ?thesis by blast
qed

lemma demo_tf_world_writable: "writable (demo_tf_world fs) path"
  by (simp add: demo_tf_world_def)

lemma demo_tflite_invoke: "tflite_invoke (demo_tensorflow v) content input = [[v]]"
  by (simp add: demo_tensorflow_def)

theorem training_runs_all_fifty_epochs_witness:
  "\<exists>(history :: epoch_logs list) tf_model w'.
     length history = 50
   \<and> train_and_convert demo_numpy (demo_tensorflow (1 / 2)) (demo_tf_world Map.empty)
       = Inr (''stress_model.tflite'', w')
   \<and> files w' ''stress_model.keras'' = Some (tf_serialize (demo_tensorflow (1 / 2)) tf_model)"
proof -
  let ?T = "demo_tensorflow (1 / 2)" and ?w = "demo_tf_world Map.empty"
  from training_runs_all_fifty_epochs [of demo_numpy ?w ?T]
  obtain X y history tf_model w6 where
    fit: "train_and_convert_fit demo_numpy ?T ?w
        = Inr ((snd (fst (split_data X y)), snd (snd (split_data X y))), history, tf_model, w6)"
    and len: "length history = 50"
    and wr: "writable w6 = writable ?w"
    and saved: "\<forall>p w'. train_and_convert demo_numpy ?T ?w = Inr (p, w') \<longrightarrow>
          files w' ''stress_model.keras'' = Some (tf_serialize ?T tf_model)"
    by blast
  have wk: "writable w6 ''stress_model.keras''" and wt: "writable w6 ''stress_model.tflite''"
    by (simp_all add: wr demo_tf_world_writable)
  obtain w' where run: "train_and_convert demo_numpy ?T ?w = Inr (''stress_model.tflite'', w')"
    using train_and_convert_total [OF fit wk wt demo_tflite_invoke] by blast
  from saved run have "files w' ''stress_model.keras'' = Some (tf_serialize ?T tf_model)"
    by blast
  with len run show ?thesis by blast
qed

text \<open>
  C7 (as amended). After the conversion the script feeds the one sample
  \<open>[0.5, 0.3, 0.7, -0.2]\<close> (as 32-bit floats) to the converted model read back from
  \<^verbatim>\<open>stress_model.tflite\<close> and prints the first output value; it makes no test on that
  value, so the run goes on whatever the value is.
\<close>

theorem sample_prediction_is_printed_unchecked:
  "(files w path = Some content
      \<and> tflite_invoke T content (astype_float32 N [[0.5, 0.3, 0.7, - 0.2]]) = (v # vs) # rows
      \<longrightarrow> test_tflite N T path w = Inr (print [Str ''Sample prediction: '', Fmt4 v] w))
   \<and> (train_and_convert N T w0 = Inr (p, w') \<longrightarrow>
        (\<exists>test history tf_model w6 u us rest.
            train_and_convert_fit N T w0 = Inr (test, history, tf_model, w6)
          \<and> files w' ''stress_model.tflite'' = Some (tflite_convert T tf_model [OptimizeDefault])
          \<and> tflite_invoke T (tflite_convert T tf_model [OptimizeDefault])
               (astype_float32 N [[0.5, 0.3, 0.7, - 0.2]]) = (u # us) # rest
          \<and> last (stdout w') = [Str ''Sample prediction: '', Fmt4 u]))"
proof (intro conjI impI)
  assume "files w path = Some content
      \<and> tflite_invoke T content (astype_float32 N [[0.5, 0.3, 0.7, - 0.2]]) = (v # vs) # rows"
  then show "test_tflite N T path w = Inr (print [Str ''Sample prediction: '', Fmt4 v] w)"
    by (simp add: test_tflite_def read_file_def Let_def)
next
  assume run: "train_and_convert N T w0 = Inr (p, w')"
  have "\<exists>r. train_and_convert_fit N T w0 = Inr r"
  proof (cases "train_and_convert_fit N T w0")
    case (Inl e)
    with run show ?thesis by (simp add: train_and_convert_def)
  next
    case (Inr r)
    then show ?thesis by blast
  qed
  then obtain r where r: "train_and_convert_fit N T w0 = Inr r" by blast
  obtain test history tf_model w6 where r4: "r = (test, history, tf_model, w6)"
    by (rule prod_cases4)
  obtain X_test y_test where test: "test = (X_test, y_test)" by (cases test)
  note fit = r [unfolded r4]
  from train_and_convert_Inr [OF fit [unfolded test] run]
  have "files w' = (files w6)(''stress_model.keras'' \<mapsto> tf_serialize T tf_model,
            ''stress_model.tflite'' \<mapsto> tflite_convert T tf_model [OptimizeDefault])"
    and "\<exists>v vs rows.
          tflite_invoke T (tflite_convert T tf_model [OptimizeDefault])
            (astype_float32 N [[0.5, 0.3, 0.7, - 0.2]]) = (v # vs) # rows
        \<and> last (stdout w') = [Str ''Sample prediction: '', Fmt4 v]"
    by blast+
  then have "files w' ''stress_model.tflite''
               = Some (tflite_convert T tf_model [OptimizeDefault])"
    and "\<exists>v vs rows.
          tflite_invoke T (tflite_convert T tf_model [OptimizeDefault])
            (astype_float32 N [[0.5, 0.3, 0.7, - 0.2]]) = (v # vs) # rows
        \<and> last (stdout w') = [Str ''Sample prediction: '', Fmt4 v]"
    by simp_all
  with fit
  show "\<exists>test history tf_model w6 u us rest.
            train_and_convert_fit N T w0 = Inr (test, history, tf_model, w6)
          \<and> files w' ''stress_model.tflite'' = Some (tflite_convert T tf_model [OptimizeDefault])
          \<and> tflite_invoke T (tflite_convert T tf_model [OptimizeDefault])
               (astype_float32 N [[0.5, 0.3, 0.7, - 0.2]]) = (u # us) # rest
          \<and> last (stdout w') = [Str ''Sample prediction: '', Fmt4 u]"
    by blast
qed

theorem sample_prediction_is_printed_unchecked_witness:
  "test_tflite demo_numpy (demo_tensorflow (1 / 2)) ''stress_model.tflite''
      (demo_tf_world [''stress_model.tflite'' \<mapsto> [0]])
     = Inr (print [Str ''Sample prediction: '', Fmt4 (1 / 2)]
              (demo_tf_world [''stress_model.tflite'' \<mapsto> [0]]))"
proof -
  have h: "files (demo_tf_world [''stress_model.tflite'' \<mapsto> [0]]) ''stress_model.tflite''
             = Some [0]
      \<and> tflite_invoke (demo_tensorflow (1 / 2)) [0]
           (astype_float32 demo_numpy [[0.5, 0.3, 0.7, - 0.2]]) = (1 / 2 # []) # []"
    by (simp add: demo_tf_world_def demo_tensorflow_def)
  from sample_prediction_is_printed_unchecked [THEN conjunct1, THEN mp, OF h]
  show ?thesis .
qed

theorem sample_prediction_counterexample:
  "test_tflite demo_numpy (demo_tensorflow (3 / 2)) ''stress_model.tflite''
      (demo_tf_world [''stress_model.tflite'' \<mapsto> [0]])
     = Inr (print [Str ''Sample prediction: '', Fmt4 (3 / 2)]
              (demo_tf_world [''stress_model.tflite'' \<mapsto> [0]]))
   \<and> \<not> ((0 :: real) \<le> 3 / 2 \<and> (3 / 2 :: real) \<le> 1)"
  by (simp add: test_tflite_def read_file_def Let_def demo_tf_world_def demo_tensorflow_def)

subsection \<open>A file that the run does not touch\<close>

lemma put_file_fields [simp]:
  "files (put_file p c w) = (files w)(p := c)"
  "writable (put_file p c w) = writable w"
  "np_state (put_file p c w) = np_state w"
  "stdout (put_file p c w) = stdout w"
  by (simp_all add: put_file_def)

lemma put_file_tf_state [simp]: "tf_state (put_file p c w) = tf_state w"
  by (simp add: put_file_def)

lemma print_put_file: "print l (put_file p c w) = put_file p c (print l w)"
  by (simp add: print_def put_file_def)

lemma np_state_update_put_file:
  "(put_file p c w)\<lparr>np_state := g\<rparr> = put_file p c (w\<lparr>np_state := g\<rparr>)"
  by (simp add: put_file_def)

lemma tf_state_update_put_file:
  "(put_file p c w)\<lparr>tf_state := t\<rparr> = put_file p c (w\<lparr>tf_state := t\<rparr>)"
  by (simp add: put_file_def)

lemma create_stress_model_put_file:
  "create_stress_model T (put_file p c w)
     = (fst (create_stress_model T w), put_file p c (snd (create_stress_model T w)))"
  by (simp add: create_stress_model_eq tf_state_update_put_file)

lemma fit_loop_put_file:
  "fit_loop T args es (m, h, put_file p c w)
     = (case fit_loop T args es (m, h, w) of (m1, h1, w1) \<Rightarrow> (m1, h1, put_file p c w1))"
proof (induction es arbitrary: m h w)
  case Nil
  show ?case by simp
next
  case (Cons epoch rest)
  show ?case
    by (simp add: Let_def split_def print_put_file tf_state_update_put_file Cons.IH)
qed

lemma fit_put_file:
  "fit T args m (put_file p c w)
     = (case fit T args m w of (h1, m1, w1) \<Rightarrow> (h1, m1, put_file p c w1))"
  by (simp add: fit_def fit_loop_put_file split_def Let_def)

lemma train_and_convert_fit_put_file:
  "train_and_convert_fit N T (put_file p c w)
     = (case train_and_convert_fit N T w of
          Inl e \<Rightarrow> Inl e
        | Inr (test, h, m, w6) \<Rightarrow> Inr (test, h, m, put_file p c w6))"
  by (simp add: train_and_convert_fit_def Let_def split_def print_put_file
        np_state_update_put_file create_stress_model_put_file fit_put_file
        split: sum.splits)

lemma evaluate_put_file:
  "evaluate T m x y (put_file p c w)
     = (fst (evaluate T m x y w), put_file p c (snd (evaluate T m x y w)))"
  by (simp add: evaluate_def split_def Let_def print_put_file)

lemma write_file_put_file:
  "q \<noteq> p \<Longrightarrow> write_file q b (put_file p c w)
     = (case write_file q b w of Inl e \<Rightarrow> Inl e | Inr w1 \<Rightarrow> Inr (put_file p c w1))"
  by (auto simp: write_file_def put_file_def fun_upd_twist)

lemma test_tflite_put_file:
  "q \<noteq> p \<Longrightarrow> test_tflite N T q (put_file p c w)
     = (case test_tflite N T q w of Inl e \<Rightarrow> Inl e | Inr w1 \<Rightarrow> Inr (put_file p c w1))"
  by (simp add: test_tflite_def read_file_def Let_def print_put_file
        split: option.splits list.splits)

lemma train_and_convert_put_file:
  "train_and_convert N T (put_file ''stress_rf_model.pkl'' c w)
     = (case train_and_convert N T w of
          Inl e \<Rightarrow> Inl e
        | Inr (p, w') \<Rightarrow> Inr (p, put_file ''stress_rf_model.pkl'' c w'))"
proof (cases "train_and_convert_fit N T w")
  case (Inl e)
  then show ?thesis
    by (simp add: train_and_convert_def train_and_convert_fit_put_file)
next
  case (Inr r)
  obtain test history tf_model w6 where r: "r = (test, history, tf_model, w6)"
    by (rule prod_cases4)
  obtain X_test y_test where test: "test = (X_test, y_test)" by (cases test)
  have k: "''stress_model.keras'' \<noteq> ''stress_rf_model.pkl''"
    and t: "''stress_model.tflite'' \<noteq> ''stress_rf_model.pkl''" by simp_all
  show ?thesis
    by (simp add: train_and_convert_def train_and_convert_fit_put_file Inr r test
          evaluate_put_file print_put_file write_file_put_file [OF k]
          write_file_put_file [OF t] test_tflite_put_file [OF t] Let_def split_def
          split: sum.splits)
qed

text \<open>
  C9 (as amended). Run as a script, \<^verbatim>\<open>convert_to_tflite.py\<close> first loads
  \<^verbatim>\<open>stress_rf_model.pkl\<close>: without that file it ends with \<^verbatim>\<open>FileNotFoundError\<close>, and with
  any other error of the load it ends with that error, before \<^verbatim>\<open>train_and_convert\<close> is
  called. The procedure \<^verbatim>\<open>train_and_convert\<close> itself takes no argument and does not
  touch that file: its outcome is the same whatever the file holds, also when it is
  absent. It completes and returns \<^verbatim>\<open>stress_model.tflite\<close> when its two output paths are
  writable and the interpreter returns a non-empty output.
\<close>

theorem convert_script_loads_the_pickle_first:
  "(files w ''stress_rf_model.pkl'' = None \<longrightarrow>
      convert_to_tflite_main N S T w = Inl (FileNotFoundError ''stress_rf_model.pkl''))
   \<and> (joblib_load S ''stress_rf_model.pkl'' w = Inl e \<longrightarrow>
      convert_to_tflite_main N S T w = Inl e)
   \<and> (joblib_load S ''stress_rf_model.pkl'' w = Inr model \<longrightarrow>
      convert_to_tflite_main N S T w
        = (case train_and_convert N T w of Inl e \<Rightarrow> Inl e | Inr (p, w') \<Rightarrow> Inr w'))
   \<and> train_and_convert N T (put_file ''stress_rf_model.pkl'' c w)
        = (case train_and_convert N T w of
             Inl e \<Rightarrow> Inl e
           | Inr (p, w') \<Rightarrow> Inr (p, put_file ''stress_rf_model.pkl'' c w'))
   \<and> (writable w ''stress_model.keras'' \<and> writable w ''stress_model.tflite''
        \<and> (\<forall>content input. \<exists>v vs rows. tflite_invoke T content input = (v # vs) # rows)
      \<longrightarrow> (\<exists>w'. train_and_convert N T w = Inr (''stress_model.tflite'', w')))"
proof (intro conjI impI)
  assume "files w ''stress_rf_model.pkl'' = None"
  then show "convert_to_tflite_main N S T w = Inl (FileNotFoundError ''stress_rf_model.pkl'')"
    by (simp add: convert_to_tflite_main_def joblib_load_def read_file_def)
next
  assume "joblib_load S ''stress_rf_model.pkl'' w = Inl e"
  then show "convert_to_tflite_main N S T w = Inl e"
    by (simp add: convert_to_tflite_main_def)
next
  assume "joblib_load S ''stress_rf_model.pkl'' w = Inr model"
  then show "convert_to_tflite_main N S T w
        = (case train_and_convert N T w of Inl e \<Rightarrow> Inl e | Inr (p, w') \<Rightarrow> Inr w')"
    by (simp add: convert_to_tflite_main_def)
next
  show "train_and_convert N T (put_file ''stress_rf_model.pkl'' c w)
        = (case train_and_convert N T w of
             Inl e \<Rightarrow> Inl e
           | Inr (p, w') \<Rightarrow> Inr (p, put_file ''stress_rf_model.pkl'' c w'))"
    by (rule train_and_convert_put_file)
next
  assume a: "writable w ''stress_model.keras'' \<and> writable w ''stress_model.tflite''
        \<and> (\<forall>content input. \<exists>v vs rows. tflite_invoke T content input = (v # vs) # rows)"
  obtain X y g where gen: "generate_training_data N 2000 (np_state w) = Inr ((X, y), g)"
    using generate_training_data_total [of 2000 N "np_state w"] by auto
  from train_and_convert_fit_eq [OF gen, of T] obtain history tf_model w6 where
    fit: "train_and_convert_fit N T w
        = Inr ((snd (fst (split_data X y)), snd (snd (split_data X y))), history, tf_model, w6)"
    and wr: "writable w6 = writable w"
    by blast
  from a obtain v vs rows where out:
    "tflite_invoke T (tflite_convert T tf_model [OptimizeDefault])
       (astype_float32 N [[0.5, 0.3, 0.7, - 0.2]]) = (v # vs) # rows"
    by blast
  from a wr have wk: "writable w6 ''stress_model.keras''"
    and wt: "writable w6 ''stress_model.tflite''" by simp_all
  from train_and_convert_total [OF fit wk wt out]
  show "\<exists>w'. train_and_convert N T w = Inr (''stress_model.tflite'', w')" .
qed

lemma demo_load:
  "joblib_load demo_sklearn ''stress_rf_model.pkl''
     (demo_tf_world [''stress_rf_model.pkl'' \<mapsto> [1]]) = Inr 1"
  by (simp add: joblib_load_def read_file_def demo_sklearn_def demo_tf_world_def)

theorem convert_script_loads_the_pickle_first_witness:
  "\<exists>w'. convert_to_tflite_main demo_numpy demo_sklearn (demo_tensorflow (1 / 2))
          (demo_tf_world [''stress_rf_model.pkl'' \<mapsto> [1]]) = Inr w'"
proof -
  let ?w = "demo_tf_world [''stress_rf_model.pkl'' \<mapsto> [1]]"
  let ?T = "demo_tensorflow (1 / 2)"
  note th = convert_script_loads_the_pickle_first
      [of ?w demo_numpy demo_sklearn ?T _ 1 None]
  have hyp: "writable ?w ''stress_model.keras'' \<and> writable ?w ''stress_model.tflite''
        \<and> (\<forall>content input. \<exists>v vs rows. tflite_invoke ?T content input = (v # vs) # rows)"
    using demo_tf_world_writable demo_tflite_invoke by blast
  from th hyp obtain w' where
    run: "train_and_convert demo_numpy ?T ?w = Inr (''stress_model.tflite'', w')"
    by blast
  from th demo_load have "convert_to_tflite_main demo_numpy demo_sklearn ?T ?w
        = (case train_and_convert demo_numpy ?T ?w of
             Inl e \<Rightarrow> Inl e | Inr (p, w') \<Rightarrow> Inr w')"
    by blast
  with run show ?thesis by simp
qed

theorem convert_script_counterexample:
  "convert_to_tflite_main demo_numpy demo_sklearn (demo_tensorflow (1 / 2))
     (demo_tf_world Map.empty) = Inl (FileNotFoundError ''stress_rf_model.pkl'')"
  by (simp add: convert_to_tflite_main_def joblib_load_def read_file_def demo_tf_world_def)

subsection \<open>The random-forest pipeline\<close>

lemma generate_synthetic_data_total:
  assumes "0 < n"
  shows "\<exists>ts br tp sl labels g'.
      generate_synthetic_data N n g =
        Inr ([(''typing_speed'', Float64 ts), (''backspace_ratio'', Float64 br),
              (''touch_pressure'', Float64 tp), (''session_length'', Float64 sl),
              (''is_stressed'', Int64 labels)], g')
    \<and> length ts = n \<and> length labels = n"
proof -
  obtain ts g1 where ts: "np_normal N 5.0 1.5 n (np_seed N 42) = (ts, g1)"
    by (cases "np_normal N 5.0 1.5 n (np_seed N 42)")
  obtain br g2 where br: "np_beta N 2 10 n g1 = (br, g2)"
    by (cases "np_beta N 2 10 n g1")
  obtain tp g3 where tp: "np_normal N 0.6 0.2 n g2 = (tp, g3)"
    by (cases "np_normal N 0.6 0.2 n g2")
  obtain sl g4 where sl: "np_exponential N 60 n g3 = (sl, g4)"
    by (cases "np_exponential N 60 n g3")
  have len: "length ts = n" "length br = n" "length tp = n" "length sl = n"
    using length_np_draws(1) [of N "5.0" "1.5" n "np_seed N 42"]
      length_np_draws(2) [of N 2 10 n g1] length_np_draws(1) [of N "0.6" "0.2" n g2]
      length_np_draws(3) [of N 60 n g3]
    by (simp_all only: ts br tp sl fst_conv)
  define rf where "rf = stress_score_rf ts br tp sl"
  have lrf: "length rf = n" unfolding rf_def using len by (simp add: length_stress_score_rf)
  from lrf assms have "rf \<noteq> []" by auto
  then obtain t1 where t1: "np_percentile rf 70 = Inr t1"
    using np_percentile_total by blast
  have "generate_synthetic_data N n g =
      Inr ([(''typing_speed'', Float64 ts), (''backspace_ratio'', Float64 br),
            (''touch_pressure'', Float64 tp), (''session_length'', Float64 sl),
            (''is_stressed'', Int64 (astype_int (greater rf t1)))], g4)"
    unfolding generate_synthetic_data_def Let_def ts br tp sl prod.case
      rf_def [symmetric] t1 sum.case ..
  moreover have "length (astype_int (greater rf t1)) = n"
    using lrf by (simp add: astype_int_def greater_def)
  ultimately show ?thesis using len by blast
qed

lemma print_importances_fields:
  "stdout (print_importances pairs w)
     = stdout w @ map (\<lambda>(name, imp). [Str name, Str '': '', Fmt4 imp]) pairs"
  "files (print_importances pairs w) = files w"
proof -
  have "stdout (print_importances pairs w)
     = stdout w @ map (\<lambda>(name, imp). [Str name, Str '': '', Fmt4 imp]) pairs
     \<and> files (print_importances pairs w) = files w"
    unfolding print_importances_def
    by (induction pairs arbitrary: w) (simp_all add: split_def)
  then show "stdout (print_importances pairs w)
     = stdout w @ map (\<lambda>(name, imp). [Str name, Str '': '', Fmt4 imp]) pairs"
    and "files (print_importances pairs w) = files w" by simp_all
qed

text \<open>
  C4. \<^verbatim>\<open>train_model\<close> generates 1000 samples, keeps the four raw feature columns as \<open>X\<close>
  and the labels as \<open>y\<close>, calls \<^verbatim>\<open>train_test_split\<close> with test size 0.2 and seed 42, fits
  a forest of 100 trees of depth at most 10 (seed 42) on the training part, prints the
  accuracy and the classification report of its predictions on the test part, writes
  the fitted model to \<^verbatim>\<open>stress_rf_model.pkl\<close> and prints one importance per feature
  column. It completes whenever that path is writable.
\<close>

theorem train_model_pipeline:
  assumes "writable w0 ''stress_rf_model.pkl''"
  shows "\<exists>ts br tp sl labels g X_train X_test y_train y_test model w'.
      generate_synthetic_data N 1000 (np_state w0) =
        Inr ([(''typing_speed'', Float64 ts), (''backspace_ratio'', Float64 br),
              (''touch_pressure'', Float64 tp), (''session_length'', Float64 sl),
              (''is_stressed'', Int64 labels)], g)
    \<and> length ts = 1000 \<and> length labels = 1000
    \<and> train_test_split S
         [(''typing_speed'', Float64 ts), (''backspace_ratio'', Float64 br),
          (''touch_pressure'', Float64 tp), (''session_length'', Float64 sl)]
         (Int64 labels) 0.2 42 = (X_train, X_test, y_train, y_test)
    \<and> model = rf_fit S \<lparr>n_estimators = 100, random_state = Some 42, max_depth = Some 10\<rparr>
                X_train y_train
    \<and> train_model N S w0 = Inr w'
    \<and> files w' = (files w0)(''stress_rf_model.pkl'' \<mapsto> pickle S model)
    \<and> stdout w' = stdout w0 @
         [[Str ''Generating synthetic data...''],
          [Str ''Dataset shape: '', Shape 1000 4],
          [Str ''Training model...''],
          [Str ''Model Accuracy: '', Fmt4 (accuracy_score S y_test (rf_predict S model X_test))],
          [Str (newline # ''Classification Report:'')],
          [Str (classification_report S y_test (rf_predict S model X_test))],
          [Str ''Model saved to '', Str ''stress_rf_model.pkl''],
          [Str (newline # ''Feature Importances:'')]] @
         map (\<lambda>(name, imp). [Str name, Str '': '', Fmt4 imp])
           (zip [''typing_speed'', ''backspace_ratio'', ''touch_pressure'', ''session_length'']
                (feature_importances S model))"
proof -
  obtain ts br tp sl labels g where
    gen: "generate_synthetic_data N 1000 (np_state w0) =
        Inr ([(''typing_speed'', Float64 ts), (''backspace_ratio'', Float64 br),
              (''touch_pressure'', Float64 tp), (''session_length'', Float64 sl),
              (''is_stressed'', Int64 labels)], g)"
    and len: "length ts = 1000" "length labels = 1000"
    using generate_synthetic_data_total [of 1000 N "np_state w0"] by auto
  let ?df = "[(''typing_speed'', Float64 ts), (''backspace_ratio'', Float64 br),
              (''touch_pressure'', Float64 tp), (''session_length'', Float64 sl),
              (''is_stressed'', Int64 labels)]"
  let ?X = "[(''typing_speed'', Float64 ts), (''backspace_ratio'', Float64 br),
          (''touch_pressure'', Float64 tp), (''session_length'', Float64 sl)]"
  have X: "drop_columns ?df [''is_stressed''] = Inr ?X"
    by (simp add: drop_columns_def)
  have y: "getitem ?df ''is_stressed'' = Inr (Int64 labels)"
    by (simp add: getitem_def)
  have sh: "shape ?X = (1000, 4)"
    using len by (simp add: shape_def series_len_def)
  have cols: "columns_of ?X
      = [''typing_speed'', ''backspace_ratio'', ''touch_pressure'', ''session_length'']"
    by (simp add: columns_of_def)
  obtain X_train X_test y_train y_test where
    sp: "train_test_split S ?X (Int64 labels) 0.2 42 = (X_train, X_test, y_train, y_test)"
    by (rule prod_cases4)
  define model where "model = rf_fit S
      \<lparr>n_estimators = 100, random_state = Some 42, max_depth = Some 10\<rparr> X_train y_train"
  define w7 where "w7 =
     print [Str (classification_report S y_test (rf_predict S model X_test))]
      (print [Str (newline # ''Classification Report:'')]
        (print [Str ''Model Accuracy: '',
                Fmt4 (accuracy_score S y_test (rf_predict S model X_test))]
          (print [Str ''Training model...'']
            (print [Str ''Dataset shape: '', Shape 1000 4]
              ((print [Str ''Generating synthetic data...''] w0)\<lparr>np_state := g\<rparr>)))))"
  have wr7: "writable w7 ''stress_rf_model.pkl''"
    using assms by (simp add: w7_def)
  define w' where "w' =
     print_importances
       (zip [''typing_speed'', ''backspace_ratio'', ''touch_pressure'', ''session_length'']
            (feature_importances S model))
       (print [Str (newline # ''Feature Importances:'')]
         (print [Str ''Model saved to '', Str ''stress_rf_model.pkl'']
           (w7\<lparr>files := (files w7)(''stress_rf_model.pkl'' \<mapsto> pickle S model)\<rparr>)))"
  have sp': "train_test_split S ?X (Int64 labels) (1 / 5) 42
      = (X_train, X_test, y_train, y_test)"
    using sp by simp
  have run: "train_model N S w0 = Inr w'"
    using assms
    by (simp add: train_model_def gen X y sh cols sp' Let_def joblib_dump_def write_file_def
          model_def w7_def w'_def)
  have f: "files w' = (files w0)(''stress_rf_model.pkl'' \<mapsto> pickle S model)"
    by (simp add: w'_def print_importances_fields w7_def)
  have out: "stdout w' = stdout w0 @
         [[Str ''Generating synthetic data...''],
          [Str ''Dataset shape: '', Shape 1000 4],
          [Str ''Training model...''],
          [Str ''Model Accuracy: '', Fmt4 (accuracy_score S y_test (rf_predict S model X_test))],
          [Str (newline # ''Classification Report:'')],
          [Str (classification_report S y_test (rf_predict S model X_test))],
          [Str ''Model saved to '', Str ''stress_rf_model.pkl''],
          [Str (newline # ''Feature Importances:'')]] @
         map (\<lambda>(name, imp). [Str name, Str '': '', Fmt4 imp])
           (zip [''typing_speed'', ''backspace_ratio'', ''touch_pressure'', ''session_length'']
                (feature_importances S model))"
    by (simp add: w'_def print_importances_fields w7_def)
  from gen len sp model_def run f out show ?thesis by blast
qed

lemma demo_world_writable: "writable (demo_world fs) path"
  by (simp add: demo_world_def)

theorem train_model_pipeline_witness:
  "\<exists>w'. train_model demo_numpy demo_sklearn (demo_world Map.empty) = Inr w'
       \<and> files w' ''stress_rf_model.pkl'' = Some [100]"
proof -
  from train_model_pipeline [where N = demo_numpy and S = demo_sklearn
      and ?w0.0 = "demo_world Map.empty", OF demo_world_writable]
  obtain X_train y_train w' where
    run: "train_model demo_numpy demo_sklearn (demo_world Map.empty) = Inr w'"
    and f: "files w' = (files (demo_world Map.empty))(''stress_rf_model.pkl'' \<mapsto>
          pickle demo_sklearn (rf_fit demo_sklearn
            \<lparr>n_estimators = 100, random_state = Some 42, max_depth = Some 10\<rparr>
            X_train y_train))"
    by blast
  from f have "files w' ''stress_rf_model.pkl'' = Some [100]"
    by (simp add: demo_sklearn_def)
  with run show ?thesis by blast
qed

end
